theory Spec2Isabelle
  imports Main
begin

section \<open>JavaScript strings\<close>

text \<open>
  A string is the list of its code units, a code unit being a \<^typ>\<open>char\<close>. On a string
  of ASCII code units \<^verbatim>\<open>toUpperCase\<close> and \<^verbatim>\<open>toLowerCase\<close> exchange the letters
  \<open>a\<close> to \<open>z\<close> and \<open>A\<close> to \<open>Z\<close> and change nothing else. On any other string they
  follow the case tables of Unicode, which may change the length of the string and depend
  on the neighbouring characters; those tables are not part of the program and are the
  parameter \<open>cc\<close> of everything that converts case.
\<close>

definition is_ascii :: "char \<Rightarrow> bool" where
  "is_ascii c = (\<not> digit7 c)"

definition lower_letters :: string where
  "lower_letters = ''abcdefghijklmnopqrstuvwxyz''"

definition upper_letters :: string where
  "upper_letters = ''ABCDEFGHIJKLMNOPQRSTUVWXYZ''"

definition toUpperChar :: "char \<Rightarrow> char" where
  "toUpperChar c = (case map_of (zip lower_letters upper_letters) c of Some u \<Rightarrow> u | None \<Rightarrow> c)"

definition toLowerChar :: "char \<Rightarrow> char" where
  "toLowerChar c = (case map_of (zip upper_letters lower_letters) c of Some l \<Rightarrow> l | None \<Rightarrow> c)"

record case_conversion =
  unicode_upper :: "string \<Rightarrow> string"
  unicode_lower :: "string \<Rightarrow> string"

definition toUpperCase :: "case_conversion \<Rightarrow> string \<Rightarrow> string" where
  "toUpperCase cc s = (if list_all is_ascii s then map toUpperChar s else unicode_upper cc s)"

definition toLowerCase :: "case_conversion \<Rightarrow> string \<Rightarrow> string" where
  "toLowerCase cc s = (if list_all is_ascii s then map toLowerChar s else unicode_lower cc s)"

text \<open>\<^verbatim>\<open>s.charAt(i)\<close>: the one-character string at index \<open>i\<close>, the empty string out of range.\<close>

definition charAt :: "string \<Rightarrow> nat \<Rightarrow> string" where
  "charAt s i = take 1 (drop i s)"

text \<open>
  \<^verbatim>\<open>s.slice(b, e)\<close> and \<^verbatim>\<open>s.slice(b)\<close>: a negative index counts from the end, both
  indices are clamped to the string, and an empty range gives the empty string.
\<close>

definition slice_index :: "nat \<Rightarrow> int \<Rightarrow> nat" where
  "slice_index n i = (if i < 0 then nat (max (int n + i) 0) else min (nat i) n)"

definition slice :: "string \<Rightarrow> int \<Rightarrow> int \<Rightarrow> string" where
  "slice s b e =
     (let from = slice_index (length s) b; to = slice_index (length s) e
      in take (to - from) (drop from s))"

definition slice_from :: "string \<Rightarrow> int \<Rightarrow> string" where
  "slice_from s b = drop (slice_index (length s) b) s"

definition startsWith :: "string \<Rightarrow> string \<Rightarrow> bool" where
  "startsWith s p = (take (length p) s = p)"

definition endsWith :: "string \<Rightarrow> string \<Rightarrow> bool" where
  "endsWith s p = (length p \<le> length s \<and> drop (length s - length p) s = p)"

text \<open>
  \<^verbatim>\<open>s.split(sep)\<close> for a one-character separator: the pieces between the separators,
  empty pieces included; \<open>cur\<close> is the piece being read.
\<close>

fun split_from :: "char \<Rightarrow> string \<Rightarrow> string \<Rightarrow> string list" where
  "split_from sep cur [] = [cur]"
| "split_from sep cur (c # cs) =
     (if c = sep then cur # split_from sep [] cs else split_from sep (cur @ [c]) cs)"

definition split_on :: "char \<Rightarrow> string \<Rightarrow> string list" where
  "split_on sep s = split_from sep [] s"

text \<open>\<^verbatim>\<open>xs.join(sep)\<close>.\<close>

fun join :: "string \<Rightarrow> string list \<Rightarrow> string" where
  "join sep [] = []"
| "join sep [x] = x"
| "join sep (x # y # ys) = x @ sep @ join sep (y # ys)"

section \<open>The operation-id synthesizer (parser.ts)\<close>

definition capitalize :: "case_conversion \<Rightarrow> string \<Rightarrow> string" where
  "capitalize cc str = toUpperCase cc (charAt str 0) @ slice_from str 1"

definition generateOperationId :: "case_conversion \<Rightarrow> string \<Rightarrow> string \<Rightarrow> string" where
  "generateOperationId cc method path =
     (let pathParts =
            join []
              (map (\<lambda>part.
                      if startsWith part ''{'' \<and> endsWith part ''}''
                      then ''By'' @ capitalize cc (slice part 1 (- 1))
                      else capitalize cc part)
                 (filter (\<lambda>part. part \<noteq> []) (split_on CHR ''/'' path)))
      in capitalize cc (toLowerCase cc method) @ pathParts)"

subsection \<open>The reference algorithm, as the specification words it\<close>






section \<open>JSON values and objects\<close>

text \<open>
  An object is the list of its own enumerable properties in the order in which
  \<^verbatim>\<open>Object.entries\<close>, \<^verbatim>\<open>Object.keys\<close> and serialisation enumerate them: the array
  indices in ascending order first, then the other keys in the order of their creation.
  A property that is present with the value \<^verbatim>\<open>undefined\<close> is \<open>JUndefined\<close>. Numbers
  are not computed with and are kept as integers.
\<close>

datatype json =
    JUndefined
  | JNull
  | JBool bool
  | JNum int
  | JStr string
  | JArr "json list"
  | JObj "(string \<times> json) list"

type_synonym jobject = "(string \<times> json) list"

text \<open>
  A key is an array index when it is the canonical decimal numeral of an integer from
  \<open>0\<close> to \<open>2\<^sup>3\<^sup>2 - 2\<close>.
\<close>

definition digit_value :: "char \<Rightarrow> nat option" where
  "digit_value c = map_of (zip ''0123456789'' [0, 1, 2, 3, 4, 5, 6, 7, 8, 9]) c"

fun decimal_value :: "nat \<Rightarrow> string \<Rightarrow> nat option" where
  "decimal_value acc [] = Some acc"
| "decimal_value acc (c # cs) =
     (case digit_value c of None \<Rightarrow> None | Some d \<Rightarrow> decimal_value (10 * acc + d) cs)"

definition array_index :: "string \<Rightarrow> nat option" where
  "array_index k =
     (case k of
        [] \<Rightarrow> None
      | c # cs \<Rightarrow>
          if c = CHR ''0'' \<and> cs \<noteq> [] then None
          else (case decimal_value 0 k of
                  None \<Rightarrow> None
                | Some i \<Rightarrow> if i \<le> 4294967294 then Some i else None))"

text \<open>Overwriting the value of an existing own property: the key keeps its place.\<close>

fun replace_prop :: "string \<Rightarrow> 'v \<Rightarrow> (string \<times> 'v) list \<Rightarrow> (string \<times> 'v) list" where
  "replace_prop k v [] = []"
| "replace_prop k v ((k', v') # ps) =
     (if k' = k then (k, v) # ps else (k', v') # replace_prop k v ps)"

text \<open>Creating the array index \<open>i\<close>, written \<open>k\<close>: it goes before the first larger index or other key.\<close>

fun insert_index :: "nat \<Rightarrow> string \<Rightarrow> 'v \<Rightarrow> (string \<times> 'v) list \<Rightarrow> (string \<times> 'v) list" where
  "insert_index i k v [] = [(k, v)]"
| "insert_index i k v ((k', v') # ps) =
     (case array_index k' of
        None \<Rightarrow> (k, v) # (k', v') # ps
      | Some j \<Rightarrow> if j < i then (k', v') # insert_index i k v ps else (k, v) # (k', v') # ps)"

text \<open>
  Defining the own property \<open>k\<close> of an object: an existing key keeps its place and takes
  the new value, a new key is created at its place in the enumeration order.
\<close>

definition set_prop :: "string \<Rightarrow> 'v \<Rightarrow> (string \<times> 'v) list \<Rightarrow> (string \<times> 'v) list" where
  "set_prop k v ps =
     (if k \<in> set (map fst ps) then replace_prop k v ps
      else (case array_index k of
              None \<Rightarrow> ps @ [(k, v)]
            | Some i \<Rightarrow> insert_index i k v ps))"

text \<open>\<^verbatim>\<open>obj[k]\<close> on the own properties, \<open>None\<close> for a missing property.\<close>

definition get_prop :: "(string \<times> 'v) list \<Rightarrow> string \<Rightarrow> 'v option" where
  "get_prop ps k = map_of ps k"

text \<open>\<^verbatim>\<open>{...obj, k: v}\<close>: a copy of the own properties of \<open>obj\<close>, then \<open>k\<close> is defined.\<close>

definition spread_with :: "jobject \<Rightarrow> string \<Rightarrow> json \<Rightarrow> jobject" where
  "spread_with obj k v = set_prop k v obj"

text \<open>
  The assignment \<^verbatim>\<open>obj[k] = v\<close> on an object that was created as \<^verbatim>\<open>{}\<close>. For every key
  but \<^verbatim>\<open>__proto__\<close> it defines the own property. The key \<^verbatim>\<open>__proto__\<close> reaches the
  setter of \<^verbatim>\<open>Object.prototype\<close>, which creates no property: it installs an object (or
  \<^verbatim>\<open>null\<close>) as the prototype and ignores any other value. The setter is not reached, and
  the own property is defined, when that property exists already, when the installed
  prototype (an object built by an object literal) has an own property of this name, or
  when the installed prototype is \<^verbatim>\<open>null\<close>. The state of the object is the pair of its
  own properties and its prototype.
\<close>

datatype prototype = ObjectPrototype | Installed json

fun proto_setter :: "json \<Rightarrow> prototype \<Rightarrow> prototype" where
  "proto_setter (JObj ps) proto = Installed (JObj ps)"
| "proto_setter JNull proto = Installed JNull"
| "proto_setter v proto = proto"

fun reaches_setter :: "jobject \<Rightarrow> prototype \<Rightarrow> bool" where
  "reaches_setter own ObjectPrototype = (''__proto__'' \<notin> set (map fst own))"
| "reaches_setter own (Installed (JObj ps)) =
     (''__proto__'' \<notin> set (map fst own) \<and> ''__proto__'' \<notin> set (map fst ps))"
| "reaches_setter own (Installed v) = False"

definition assign :: "string \<Rightarrow> json \<Rightarrow> jobject \<times> prototype \<Rightarrow> jobject \<times> prototype" where
  "assign k v obj =
     (if k = ''__proto__'' \<and> reaches_setter (fst obj) (snd obj)
      then (fst obj, proto_setter v (snd obj))
      else (set_prop k v (fst obj), snd obj))"

text \<open>\<^verbatim>\<open>a || b\<close> on an optional string: the empty string and \<^verbatim>\<open>undefined\<close> are falsy.\<close>

definition truthy :: "string option \<Rightarrow> bool" where
  "truthy a = (case a of None \<Rightarrow> False | Some s \<Rightarrow> s \<noteq> [])"

section \<open>The data model (types.ts)\<close>

record EndpointParameter =
  param_name :: string
  param_in :: string
  param_required :: bool
  param_schema :: jobject
  param_description :: "string option"

record RequestBodySchema =
  body_required :: bool
  body_contentType :: string
  body_schema :: jobject

record OpenAPIEndpoint =
  ep_operationId :: string
  ep_method :: string
  ep_path :: string
  ep_summary :: "string option"
  ep_description :: "string option"
  ep_parameters :: "EndpointParameter list"
  ep_requestBody :: "RequestBodySchema option"
  ep_securitySchemes :: "string list"
  ep_tags :: "string list"

record McpToolDefinition =
  tool_name :: string
  tool_description :: string
  tool_inputSchema :: jobject
  tool_httpMethod :: string
  tool_pathTemplate :: string
  tool_parameters :: "EndpointParameter list"
  tool_requestBodyContentType :: "string option"
  tool_securitySchemes :: "string list"

record SecurityScheme =
  scheme_type :: string
  scheme_name :: "string option"
  scheme_in :: "string option"
  scheme_scheme :: "string option"
  scheme_bearerFormat :: "string option"
  scheme_flows :: "json option"
  scheme_openIdConnectUrl :: "string option"

record ParsedOpenAPI =
  api_title :: string
  api_version :: string
  api_description :: "string option"
  api_baseUrl :: string
  api_endpoints :: "OpenAPIEndpoint list"
  api_securitySchemes :: "(string \<times> SecurityScheme) list"

section \<open>The resolved OpenAPI document (openapi-types, as parser.ts reads it)\<close>

text \<open>
  A node of the document is either a reference object (it has a \<^verbatim>\<open>$ref\<close> key, which is
  what \<^verbatim>\<open>isReference\<close> tests) or the object itself.
\<close>

datatype 'a or_ref = Reference string | Obj 'a

fun isReference :: "'a or_ref \<Rightarrow> bool" where
  "isReference (Reference r) = True"
| "isReference (Obj x) = False"

record ParameterObject =
  po_name :: string
  po_in :: string
  po_required :: "bool option"
  po_schema :: "jobject option"
  po_description :: "string option"

record MediaTypeObject =
  mt_schema :: "jobject option"

record RequestBodyObject =
  rb_content :: "(string \<times> MediaTypeObject) list option"
  rb_required :: "bool option"

record OperationObject =
  op_operationId :: "string option"
  op_summary :: "string option"
  op_description :: "string option"
  op_parameters :: "ParameterObject or_ref list option"
  op_requestBody :: "RequestBodyObject or_ref option"
  op_security :: "(string \<times> string list) list list option"
  op_tags :: "string list option"

record PathItemObject =
  pi_get :: "OperationObject option"
  pi_post :: "OperationObject option"
  pi_put :: "OperationObject option"
  pi_patch :: "OperationObject option"
  pi_delete :: "OperationObject option"
  pi_head :: "OperationObject option"
  pi_options :: "OperationObject option"
  pi_parameters :: "ParameterObject or_ref list option"

record SecuritySchemeObject =
  sso_type :: string
  sso_name :: "string option"
  sso_in :: "string option"
  sso_scheme :: "string option"
  sso_bearerFormat :: "string option"
  sso_flows :: "json option"
  sso_openIdConnectUrl :: "string option"

record InfoObject =
  info_title :: string
  info_version :: string
  info_description :: "string option"

record ServerObject =
  server_url :: "string option"

record OpenAPI3Doc =
  doc_info :: InfoObject
  doc_servers :: "ServerObject list option"
  doc_paths :: "(string \<times> PathItemObject or_ref option) list option"
  doc_securitySchemes :: "(string \<times> SecuritySchemeObject or_ref) list option"

section \<open>The extractor (parser.ts)\<close>

definition extractParameter :: "ParameterObject \<Rightarrow> EndpointParameter" where
  "extractParameter param =
     \<lparr> param_name = po_name param,
       param_in = po_in param,
       param_required = (case po_required param of Some b \<Rightarrow> b | None \<Rightarrow> False),
       param_schema = (case po_schema param of Some sch \<Rightarrow> sch | None \<Rightarrow> [(''type'', JStr ''string'')]),
       param_description = po_description param \<rparr>"

definition extractRequestBody :: "RequestBodyObject \<Rightarrow> RequestBodySchema option" where
  "extractRequestBody body =
     (let content = rb_content body;
          jsonContent = (case content of None \<Rightarrow> None | Some c \<Rightarrow> get_prop c ''application/json'');
          required = (case rb_required body of Some b \<Rightarrow> b | None \<Rightarrow> False)
      in case (case jsonContent of None \<Rightarrow> None | Some mediaType \<Rightarrow> mt_schema mediaType) of
           Some sch \<Rightarrow>
             Some \<lparr> body_required = required,
                    body_contentType = ''application/json'',
                    body_schema = sch \<rparr>
         | None \<Rightarrow>
             (case (case content of None \<Rightarrow> [] | Some c \<Rightarrow> c) of
                [] \<Rightarrow> None
              | (contentType, mediaType) # others \<Rightarrow>
                  (case mt_schema mediaType of
                     None \<Rightarrow> None
                   | Some sch \<Rightarrow>
                       if contentType \<noteq> []
                       then Some \<lparr> body_required = required,
                                   body_contentType = contentType,
                                   body_schema = sch \<rparr>
                       else None)))"

definition extractSecurityScheme :: "SecuritySchemeObject \<Rightarrow> SecurityScheme" where
  "extractSecurityScheme scheme =
     (let result = \<lparr> scheme_type = sso_type scheme, scheme_name = None, scheme_in = None,
                      scheme_scheme = None, scheme_bearerFormat = None, scheme_flows = None,
                      scheme_openIdConnectUrl = None \<rparr>
      in if sso_type scheme = ''apiKey''
         then result\<lparr> scheme_name := sso_name scheme, scheme_in := sso_in scheme \<rparr>
         else if sso_type scheme = ''http''
         then result\<lparr> scheme_scheme := sso_scheme scheme,
                       scheme_bearerFormat := sso_bearerFormat scheme \<rparr>
         else if sso_type scheme = ''oauth2'' \<and> sso_flows scheme \<noteq> None
         then result\<lparr> scheme_flows := sso_flows scheme \<rparr>
         else if sso_type scheme = ''openIdConnect'' \<and> sso_openIdConnectUrl scheme \<noteq> None
         then result\<lparr> scheme_openIdConnectUrl := sso_openIdConnectUrl scheme \<rparr>
         else result)"

text \<open>The loop over \<open>allParams\<close>: reference nodes are skipped, the others pushed in order.\<close>

fun push_parameters ::
  "ParameterObject or_ref list \<Rightarrow> EndpointParameter list \<Rightarrow> EndpointParameter list" where
  "push_parameters [] parameters = parameters"
| "push_parameters (Reference r # allParams) parameters = push_parameters allParams parameters"
| "push_parameters (Obj param # allParams) parameters =
     push_parameters allParams (parameters @ [extractParameter param])"

text \<open>The loop over the security requirements: the keys of each requirement are pushed.\<close>

fun push_security :: "(string \<times> string list) list list \<Rightarrow> string list \<Rightarrow> string list" where
  "push_security [] securitySchemes = securitySchemes"
| "push_security (req # security) securitySchemes =
     push_security security (securitySchemes @ map fst req)"

definition extractEndpoint ::
  "case_conversion \<Rightarrow> string \<Rightarrow> string \<Rightarrow> OperationObject \<Rightarrow> ParameterObject or_ref list option
     \<Rightarrow> OpenAPIEndpoint" where
  "extractEndpoint cc path method operation pathParameters =
     (let allParams = (case pathParameters of None \<Rightarrow> [] | Some ps \<Rightarrow> ps)
                      @ (case op_parameters operation of None \<Rightarrow> [] | Some ps \<Rightarrow> ps);
          parameters = push_parameters allParams [];
          requestBody = (case op_requestBody operation of
                           None \<Rightarrow> None
                         | Some (Reference r) \<Rightarrow> None
                         | Some (Obj body) \<Rightarrow> extractRequestBody body);
          securitySchemes =
            push_security (case op_security operation of None \<Rightarrow> [] | Some sec \<Rightarrow> sec) [];
          operationId = (if truthy (op_operationId operation)
                         then (case op_operationId operation of Some i \<Rightarrow> i | None \<Rightarrow> [])
                         else generateOperationId cc method path)
      in \<lparr> ep_operationId = operationId,
           ep_method = method,
           ep_path = path,
           ep_summary = op_summary operation,
           ep_description = op_description operation,
           ep_parameters = parameters,
           ep_requestBody = requestBody,
           ep_securitySchemes = securitySchemes,
           ep_tags = (case op_tags operation of None \<Rightarrow> [] | Some ts \<Rightarrow> ts) \<rparr>)"

definition methods :: "string list" where
  "methods = [''get'', ''post'', ''put'', ''patch'', ''delete'', ''head'', ''options'']"

text \<open>\<^verbatim>\<open>pathItem[method]\<close> for the method names of the fixed list.\<close>

definition pathItem_operation :: "PathItemObject \<Rightarrow> string \<Rightarrow> OperationObject option" where
  "pathItem_operation pathItem m =
     (if m = ''get'' then pi_get pathItem
      else if m = ''post'' then pi_post pathItem
      else if m = ''put'' then pi_put pathItem
      else if m = ''patch'' then pi_patch pathItem
      else if m = ''delete'' then pi_delete pathItem
      else if m = ''head'' then pi_head pathItem
      else if m = ''options'' then pi_options pathItem
      else None)"

text \<open>The inner loop of \<open>extractFromSpec\<close>, over the methods left to visit.\<close>

fun methods_loop ::
  "case_conversion \<Rightarrow> string \<Rightarrow> PathItemObject \<Rightarrow> string list \<Rightarrow> OpenAPIEndpoint list
     \<Rightarrow> OpenAPIEndpoint list" where
  "methods_loop cc path pathItem [] endpoints = endpoints"
| "methods_loop cc path pathItem (m # ms) endpoints =
     (case pathItem_operation pathItem m of
        None \<Rightarrow> methods_loop cc path pathItem ms endpoints
      | Some operation \<Rightarrow>
          methods_loop cc path pathItem ms
            (endpoints
             @ [extractEndpoint cc path (toUpperCase cc m) operation (pi_parameters pathItem)]))"

text \<open>The outer loop, over the entries of \<open>api.paths\<close> left to visit.\<close>

fun paths_loop ::
  "case_conversion \<Rightarrow> (string \<times> PathItemObject or_ref option) list \<Rightarrow> OpenAPIEndpoint list
     \<Rightarrow> OpenAPIEndpoint list" where
  "paths_loop cc [] endpoints = endpoints"
| "paths_loop cc ((path, None) # entries) endpoints = paths_loop cc entries endpoints"
| "paths_loop cc ((path, Some (Reference r)) # entries) endpoints = paths_loop cc entries endpoints"
| "paths_loop cc ((path, Some (Obj pathItem)) # entries) endpoints =
     paths_loop cc entries (methods_loop cc path pathItem methods endpoints)"

text \<open>
  The loop over \<open>components.securitySchemes\<close>. The table starts as \<^verbatim>\<open>{}\<close> and the
  extracted schemes have no property named \<^verbatim>\<open>__proto__\<close>, so the assignment under that
  name always reaches the prototype setter and leaves the own properties as they are.
\<close>

fun schemes_loop ::
  "(string \<times> SecuritySchemeObject or_ref) list \<Rightarrow> (string \<times> SecurityScheme) list
     \<Rightarrow> (string \<times> SecurityScheme) list" where
  "schemes_loop [] securitySchemes = securitySchemes"
| "schemes_loop ((n, Reference r) # entries) securitySchemes = schemes_loop entries securitySchemes"
| "schemes_loop ((n, Obj scheme) # entries) securitySchemes =
     schemes_loop entries
       (if n = ''__proto__'' then securitySchemes
        else set_prop n (extractSecurityScheme scheme) securitySchemes)"

definition extractFromSpec :: "case_conversion \<Rightarrow> OpenAPI3Doc \<Rightarrow> ParsedOpenAPI" where
  "extractFromSpec cc api =
     (let securitySchemes =
            (case doc_securitySchemes api of None \<Rightarrow> [] | Some entries \<Rightarrow> schemes_loop entries []);
          baseUrl =
            (case doc_servers api of
               None \<Rightarrow> []
             | Some [] \<Rightarrow> []
             | Some (server # others) \<Rightarrow>
                 (if truthy (server_url server)
                  then (case server_url server of Some u \<Rightarrow> u | None \<Rightarrow> [])
                  else []));
          endpoints =
            (case doc_paths api of None \<Rightarrow> [] | Some entries \<Rightarrow> paths_loop cc entries [])
      in \<lparr> api_title = info_title (doc_info api),
           api_version = info_version (doc_info api),
           api_description = info_description (doc_info api),
           api_baseUrl = baseUrl,
           api_endpoints = endpoints,
           api_securitySchemes = securitySchemes \<rparr>)"

section \<open>The tool mapper (mapper.ts)\<close>

text \<open>The value stored under \<open>properties[param.name]\<close>.\<close>

definition parameter_property :: "EndpointParameter \<Rightarrow> json" where
  "parameter_property param =
     JObj (spread_with (param_schema param) ''description''
             (if truthy (param_description param)
              then (case param_description param of Some d \<Rightarrow> JStr d | None \<Rightarrow> JUndefined)
              else (case get_prop (param_schema param) ''description'' of
                      Some d \<Rightarrow> d
                    | None \<Rightarrow> JUndefined)))"

text \<open>
  The loop over the parameters; the state is the \<open>properties\<close> object (its own
  properties and its prototype) and the \<open>required\<close> array.
\<close>

fun add_parameters ::
  "EndpointParameter list \<Rightarrow> (jobject \<times> prototype) \<times> string list
     \<Rightarrow> (jobject \<times> prototype) \<times> string list" where
  "add_parameters [] (properties, required) = (properties, required)"
| "add_parameters (param # params) (properties, required) =
     add_parameters params
       (assign (param_name param) (parameter_property param) properties,
        if param_required param then required @ [param_name param] else required)"

definition add_requestBody ::
  "RequestBodySchema option \<Rightarrow> (jobject \<times> prototype) \<times> string list
     \<Rightarrow> (jobject \<times> prototype) \<times> string list" where
  "add_requestBody requestBody state =
     (case requestBody of
        None \<Rightarrow> state
      | Some body \<Rightarrow>
          (assign ''requestBody''
             (JObj (spread_with (body_schema body) ''description'' (JStr ''The JSON request body.'')))
             (fst state),
           if body_required body then snd state @ [''requestBody''] else snd state))"

definition buildInputSchema :: "OpenAPIEndpoint \<Rightarrow> jobject" where
  "buildInputSchema endpoint =
     (let (properties, required) =
            add_requestBody (ep_requestBody endpoint)
              (add_parameters (ep_parameters endpoint) (([], ObjectPrototype), []));
          sch = [(''type'', JStr ''object''), (''properties'', JObj (fst properties))]
      in if length required > 0 then set_prop ''required'' (JArr (map JStr required)) sch else sch)"

definition mapEndpointToTool :: "case_conversion \<Rightarrow> OpenAPIEndpoint \<Rightarrow> McpToolDefinition" where
  "mapEndpointToTool cc endpoint =
     (let inputSchema = buildInputSchema endpoint;
          description0 =
            (if truthy (ep_summary endpoint)
             then (case ep_summary endpoint of Some sm \<Rightarrow> sm | None \<Rightarrow> [])
             else ''Executes '' @ ep_method endpoint @ '' '' @ ep_path endpoint);
          description1 =
            (if truthy (ep_description endpoint) \<and> ep_description endpoint \<noteq> ep_summary endpoint
             then description0 @ [CHR 0x0A, CHR 0x0A]
                  @ (case ep_description endpoint of Some d \<Rightarrow> d | None \<Rightarrow> [])
             else description0)
      in \<lparr> tool_name = ep_operationId endpoint,
           tool_description = description1,
           tool_inputSchema = inputSchema,
           tool_httpMethod = toLowerCase cc (ep_method endpoint),
           tool_pathTemplate = ep_path endpoint,
           tool_parameters = ep_parameters endpoint,
           tool_requestBodyContentType =
             (case ep_requestBody endpoint of None \<Rightarrow> None | Some body \<Rightarrow> Some (body_contentType body)),
           tool_securitySchemes = ep_securitySchemes endpoint \<rparr>)"

definition mapToMcpTools ::
  "case_conversion \<Rightarrow> OpenAPIEndpoint list \<Rightarrow> string set option \<Rightarrow> McpToolDefinition list" where
  "mapToMcpTools cc endpoints enabledPaths =
     map (mapEndpointToTool cc)
       (filter (\<lambda>endpoint.
                  case enabledPaths of
                    None \<Rightarrow> True
                  | Some enabled \<Rightarrow> ep_method endpoint @ '':'' @ ep_path endpoint \<in> enabled)
          endpoints)"

definition getEndpointKey :: "OpenAPIEndpoint \<Rightarrow> string" where
  "getEndpointKey endpoint = ep_method endpoint @ '':'' @ ep_path endpoint"

definition getAllEndpointKeys :: "OpenAPIEndpoint list \<Rightarrow> string list" where
  "getAllEndpointKeys endpoints = map getEndpointKey endpoints"

section \<open>The code emitter (generator.ts)\<close>

text \<open>
  \<open>generateMcpServer\<close> starts from the empty object and assigns six keys, each to the text
  one renderer returns; the keys are literals other than \<^verbatim>\<open>__proto__\<close>, so that each
  assignment defines the own property. The renderers are long string templates over the tools, the options
  and the security schemes; they are parameters here, so that every statement about the
  bundle holds whatever text they produce.
\<close>

record OAuth2Config =
  authorizationServerUrl :: "string option"
  scopes :: "string list option"
  resourceUrl :: "string option"
  jwksCacheTtlSeconds :: "int option"

record PromptArgument =
  arg_name :: string
  arg_description :: string
  arg_required :: bool

record PromptDefinition =
  prompt_name :: string
  prompt_title :: "string option"
  prompt_description :: string
  prompt_content :: string
  prompt_arguments :: "PromptArgument list option"

record GeneratorOptions =
  opt_name :: string
  opt_version :: "string option"
  opt_baseUrl :: string
  enabledEndpoints :: "string set option"
  emcyEnabled :: "bool option"
  localSdkPath :: "string option"
  oauth2Config :: "OAuth2Config option"
  prompts :: "PromptDefinition list option"

record renderers =
  generatePackageJson :: "GeneratorOptions \<Rightarrow> string"
  generateTsConfig :: string
  generateServerEntry ::
    "McpToolDefinition list \<Rightarrow> GeneratorOptions \<Rightarrow> (string \<times> SecurityScheme) list \<Rightarrow> string"
  generateTransport :: "GeneratorOptions \<Rightarrow> string"
  generateEnvExample ::
    "McpToolDefinition list \<Rightarrow> (string \<times> SecurityScheme) list \<Rightarrow> GeneratorOptions \<Rightarrow> string"
  generateReadme :: "GeneratorOptions \<Rightarrow> string"

definition generateMcpServer ::
  "renderers \<Rightarrow> McpToolDefinition list \<Rightarrow> GeneratorOptions \<Rightarrow> (string \<times> SecurityScheme) list
     \<Rightarrow> (string \<times> string) list" where
  "generateMcpServer r tools opts securitySchemes =
     (let files = [];
          files = set_prop ''package.json'' (generatePackageJson r opts) files;
          files = set_prop ''tsconfig.json'' (generateTsConfig r) files;
          files = set_prop ''src/index.ts'' (generateServerEntry r tools opts securitySchemes) files;
          files = set_prop ''src/transport.ts'' (generateTransport r opts) files;
          files = set_prop ''.env.example'' (generateEnvExample r tools securitySchemes opts) files;
          files = set_prop ''README.md'' (generateReadme r opts) files
      in files)"

section \<open>Reading a schema, and sample inputs\<close>

text \<open>The \<open>properties\<close> object and the \<open>required\<close> array of an input schema, empty when absent.\<close>

definition schema_properties :: "jobject \<Rightarrow> jobject" where
  "schema_properties sch = (case get_prop sch ''properties'' of Some (JObj ps) \<Rightarrow> ps | _ \<Rightarrow> [])"

definition schema_required :: "jobject \<Rightarrow> json list" where
  "schema_required sch = (case get_prop sch ''required'' of Some (JArr names) \<Rightarrow> names | _ \<Rightarrow> [])"

text \<open>The key of a tool: its method in upper case, a colon, its path template.\<close>

definition tool_key :: "case_conversion \<Rightarrow> McpToolDefinition \<Rightarrow> string" where
  "tool_key cc tool = toUpperCase cc (tool_httpMethod tool) @ '':'' @ tool_pathTemplate tool"

text \<open>
  A case conversion for the sample inputs. They are ASCII strings, on which every case
  conversion gives the same result.
\<close>

definition sample_conversion :: case_conversion where
  "sample_conversion = \<lparr> unicode_upper = (\<lambda>s. s), unicode_lower = (\<lambda>s. s) \<rparr>"

text \<open>An operation, a parameter and an endpoint with nothing optional declared.\<close>

definition bare_operation :: OperationObject where
  "bare_operation =
     \<lparr> op_operationId = None, op_summary = None, op_description = None, op_parameters = None,
       op_requestBody = None, op_security = None, op_tags = None \<rparr>"

definition bare_pathItem :: PathItemObject where
  "bare_pathItem =
     \<lparr> pi_get = None, pi_post = None, pi_put = None, pi_patch = None, pi_delete = None,
       pi_head = None, pi_options = None, pi_parameters = None \<rparr>"

definition bare_parameter :: "string \<Rightarrow> ParameterObject" where
  "bare_parameter n =
     \<lparr> po_name = n, po_in = ''query'', po_required = None, po_schema = None,
       po_description = None \<rparr>"

definition bare_endpoint :: "string \<Rightarrow> string \<Rightarrow> OpenAPIEndpoint" where
  "bare_endpoint m p =
     \<lparr> ep_operationId = ''operation'', ep_method = m, ep_path = p, ep_summary = None,
       ep_description = None, ep_parameters = [], ep_requestBody = None, ep_securitySchemes = [],
       ep_tags = [] \<rparr>"

definition sample_doc :: "(string \<times> PathItemObject or_ref option) list \<Rightarrow> OpenAPI3Doc" where
  "sample_doc entries =
     \<lparr> doc_info = \<lparr> info_title = ''Sample API'', info_version = ''v1'', info_description = None \<rparr>,
       doc_servers = None,
       doc_paths = Some entries,
       doc_securitySchemes = None \<rparr>"


definition orders_doc :: OpenAPI3Doc where
  "orders_doc =
     sample_doc
       [(''/Orders'', Some (Obj (bare_pathItem\<lparr> pi_post := Some bare_operation,
                                                 pi_get := Some bare_operation \<rparr>))),
        (''/legacy'', Some (Reference ''#/components/pathItems/legacy'')),
        (''/Orders/{id}'', Some (Obj (bare_pathItem\<lparr> pi_delete := Some bare_operation,
                                                      pi_get := Some bare_operation \<rparr>)))]"

definition json_without_schema_body :: RequestBodyObject where
  "json_without_schema_body =
     \<lparr> rb_content = Some [(''text/plain'', \<lparr> mt_schema = Some [(''type'', JStr ''string'')] \<rparr>),
                          (''application/json'', \<lparr> mt_schema = None \<rparr>)],
       rb_required = None \<rparr>"

definition json_body :: RequestBodyObject where
  "json_body =
     \<lparr> rb_content = Some [(''text/plain'', \<lparr> mt_schema = Some [(''type'', JStr ''string'')] \<rparr>),
                          (''application/json'', \<lparr> mt_schema = Some [(''type'', JStr ''object'')] \<rparr>)],
       rb_required = Some True \<rparr>"

definition xml_body :: RequestBodyObject where
  "xml_body =
     \<lparr> rb_content = Some [(''application/xml'', \<lparr> mt_schema = Some [(''type'', JStr ''object'')] \<rparr>),
                          (''text/plain'', \<lparr> mt_schema = Some [(''type'', JStr ''string'')] \<rparr>)],
       rb_required = None \<rparr>"

definition schemaless_body :: RequestBodyObject where
  "schemaless_body =
     \<lparr> rb_content = Some [(''text/plain'', \<lparr> mt_schema = None \<rparr>),
                          (''application/xml'', \<lparr> mt_schema = Some [(''type'', JStr ''object'')] \<rparr>)],
       rb_required = None \<rparr>"

definition integer_parameter :: "string \<Rightarrow> bool \<Rightarrow> ParameterObject" where
  "integer_parameter n req =
     \<lparr> po_name = n, po_in = ''path'', po_required = Some req,
       po_schema = Some [(''type'', JStr ''integer'')], po_description = None \<rparr>"

definition string_parameter :: "string \<Rightarrow> bool \<Rightarrow> EndpointParameter" where
  "string_parameter n req =
     \<lparr> param_name = n, param_in = ''query'', param_required = req,
       param_schema = [(''type'', JStr ''string'')], param_description = None \<rparr>"

definition object_body :: "bool \<Rightarrow> RequestBodySchema" where
  "object_body req =
     \<lparr> body_required = req, body_contentType = ''application/json'',
       body_schema = [(''type'', JStr ''object''), (''description'', JStr ''An order.'')] \<rparr>"

definition constant_renderers :: renderers where
  "constant_renderers =
     \<lparr> generatePackageJson = (\<lambda>opts. []), generateTsConfig = [],
       generateServerEntry = (\<lambda>tools opts schemes. []), generateTransport = (\<lambda>opts. []),
       generateEnvExample = (\<lambda>tools schemes opts. []), generateReadme = (\<lambda>opts. []) \<rparr>"

definition requestBody_operation :: OperationObject where
  "requestBody_operation =
     bare_operation\<lparr> op_parameters := Some [Obj (integer_parameter ''requestBody'' True)],
                     op_requestBody := Some (Obj json_body) \<rparr>"

definition duplicate_id_operation :: OperationObject where
  "duplicate_id_operation =
     bare_operation\<lparr> op_parameters := Some [Obj (integer_parameter ''id'' True),
                                             Obj (bare_parameter ''limit'')] \<rparr>"

definition requestBody_endpoint :: OpenAPIEndpoint where
  "requestBody_endpoint =
     (bare_endpoint ''POST'' ''/orders'')
       \<lparr> ep_parameters := [string_parameter ''requestBody'' True],
         ep_requestBody := Some (object_body True) \<rparr>"

section \<open>Properties of the synthesizer\<close>








lemmas case_tables =
  toUpperCase_def toLowerCase_def is_ascii_def toUpperChar_def toLowerChar_def
  lower_letters_def upper_letters_def


subsection \<open>Collisions of synthesized identifiers\<close>







section \<open>Properties of objects\<close>

lemma map_of_replace_prop:
  "k \<in> fst ` set ps \<Longrightarrow> map_of (replace_prop k v ps) k' = (if k' = k then Some v else map_of ps k')"
  by (induction ps) force+

lemma map_of_insert_index:
  "k \<notin> fst ` set ps \<Longrightarrow> map_of (insert_index i k v ps) k' = (if k' = k then Some v else map_of ps k')"
  by (induction ps) (auto split: option.splits)

lemma map_of_snoc:
  "k \<notin> fst ` set ps \<Longrightarrow> map_of (ps @ [(k, v)]) k' = (if k' = k then Some v else map_of ps k')"
  by (induction ps) auto

lemma get_prop_set_prop:
  "get_prop (set_prop k v ps) k' = (if k' = k then Some v else get_prop ps k')"
proof (cases "k \<in> fst ` set ps")
  case True
  then show ?thesis
    using map_of_replace_prop[OF True, of v k'] by (simp add: get_prop_def set_prop_def)
next
  case False
  then show ?thesis
    using map_of_insert_index[OF False, of _ v k'] map_of_snoc[OF False, of v k']
    by (auto simp: get_prop_def set_prop_def split: option.splits)
qed

lemma no_index:
  "array_index ''package.json'' = None" "array_index ''tsconfig.json'' = None"
  "array_index ''src/index.ts'' = None" "array_index ''src/transport.ts'' = None"
  "array_index ''.env.example'' = None" "array_index ''README.md'' = None"
  "array_index ''required'' = None" "array_index ''description'' = None"
  "array_index ''requestBody'' = None"
  by (simp_all add: array_index_def digit_value_def)


lemma set_prop_new_key:
  "k \<notin> fst ` set ps \<Longrightarrow> array_index k = None \<Longrightarrow> set_prop k v ps = ps @ [(k, v)]"
  by (simp add: set_prop_def)

lemma get_prop_list:
  "get_prop [] k = None"
  "get_prop ((k', v) # ps) k = (if k = k' then Some v else get_prop ps k)"
  by (simp_all add: get_prop_def)

lemma assign_proto_sample:
  "assign ''__proto__'' (JObj [(''type'', JStr ''string'')]) ([], ObjectPrototype)
     = ([], Installed (JObj [(''type'', JStr ''string'')]))"
  by (simp add: assign_def)

lemma index_order_sample:
  "map fst (set_prop ''1'' a (set_prop ''b'' b (set_prop ''10'' c (set_prop ''a'' d []))))
     = [''1'', ''10'', ''a'', ''b'']"
  by (simp add: set_prop_def array_index_def digit_value_def)

lemma get_prop_assign:
  "n \<noteq> ''__proto__'' \<Longrightarrow>
     get_prop (fst (assign k v obj)) n = (if n = k then Some v else get_prop (fst obj) n)"
  by (auto simp: assign_def get_prop_set_prop)

section \<open>Properties of the extractor\<close>

lemma push_parameters_eq:
  "push_parameters xs acc =
     acc @ map extractParameter
             (concat (map (\<lambda>x. case x of Obj p \<Rightarrow> [p] | Reference r \<Rightarrow> []) xs))"
  by (induction xs acc rule: push_parameters.induct) simp_all

lemma extractEndpoint_path_method [simp]:
  "ep_path (extractEndpoint cc p m operation pps) = p"
  "ep_method (extractEndpoint cc p m operation pps) = m"
  by (simp_all add: extractEndpoint_def Let_def)

lemma methods_loop_keys:
  "map (\<lambda>e. (ep_path e, ep_method e)) (methods_loop cc p pathItem ms acc) =
     map (\<lambda>e. (ep_path e, ep_method e)) acc
     @ map (\<lambda>m. (p, toUpperCase cc m)) (filter (\<lambda>m. pathItem_operation pathItem m \<noteq> None) ms)"
  by (induction ms arbitrary: acc) (auto simp del: not_None_eq split: option.splits)

lemma paths_loop_keys:
  "map (\<lambda>e. (ep_path e, ep_method e)) (paths_loop cc entries acc) =
     map (\<lambda>e. (ep_path e, ep_method e)) acc
     @ concat (map (\<lambda>(p, item).
                      case item of
                        Some (Obj pathItem) \<Rightarrow>
                          map (\<lambda>m. (p, toUpperCase cc m))
                            (filter (\<lambda>m. pathItem_operation pathItem m \<noteq> None) methods)
                      | _ \<Rightarrow> [])
                 entries)"
  by (induction cc entries acc rule: paths_loop.induct)
     (simp_all add: methods_loop_keys del: not_None_eq)

lemma extractFromSpec_keys:
  "map (\<lambda>e. (ep_path e, ep_method e)) (api_endpoints (extractFromSpec cc api)) =
     concat (map (\<lambda>(p, item).
                    case item of
                      Some (Obj pathItem) \<Rightarrow>
                        map (\<lambda>m. (p, toUpperCase cc m))
                          (filter (\<lambda>m. pathItem_operation pathItem m \<noteq> None) methods)
                    | _ \<Rightarrow> [])
               (case doc_paths api of None \<Rightarrow> [] | Some entries \<Rightarrow> entries))"
  by (simp add: extractFromSpec_def Let_def paths_loop_keys del: not_None_eq split: option.splits)

text \<open>
  Claim C5. The endpoints returned by extraction, read as (path, method) pairs, are the
  path templates of the document in declaration order and, within each path, the declared
  operations among get, post, put, patch, delete, head, options in that fixed order (the
  method stored in upper case); entries that are missing or references contribute nothing.
\<close>

theorem extractFromSpec_order:
  "map (\<lambda>e. (ep_path e, ep_method e)) (api_endpoints (extractFromSpec cc api)) =
     concat (map (\<lambda>(p, item).
                    case item of
                      Some (Obj pathItem) \<Rightarrow>
                        map (\<lambda>m. (p, toUpperCase cc m))
                          (filter (\<lambda>m. pathItem_operation pathItem m \<noteq> None)
                             [''get'', ''post'', ''put'', ''patch'', ''delete'', ''head'', ''options''])
                    | _ \<Rightarrow> [])
               (case doc_paths api of None \<Rightarrow> [] | Some entries \<Rightarrow> entries))"
  using extractFromSpec_keys[of cc api] unfolding methods_def .

theorem extractFromSpec_order_witness:
  "map (\<lambda>e. (ep_path e, ep_method e)) (api_endpoints (extractFromSpec sample_conversion orders_doc)) =
     [(''/Orders'', ''GET''), (''/Orders'', ''POST''),
      (''/Orders/{id}'', ''GET''), (''/Orders/{id}'', ''DELETE'')]"
  using extractFromSpec_order[of sample_conversion orders_doc]
  by (simp add: orders_doc_def sample_doc_def pathItem_operation_def bare_pathItem_def case_tables)

text \<open>
  Claim C6, as stated, fails: a body that declares \<open>application/json\<close> without a schema,
  after \<open>text/plain\<close> with one, is extracted with \<open>text/plain\<close> retained.
\<close>

theorem extractRequestBody_json_declared_not_retained:
  "map fst (case rb_content json_without_schema_body of None \<Rightarrow> [] | Some c \<Rightarrow> c)
     = [''text/plain'', ''application/json'']
   \<and> extractRequestBody json_without_schema_body
     = Some \<lparr> body_required = False, body_contentType = ''text/plain'',
              body_schema = [(''type'', JStr ''string'')] \<rparr>"
  by (simp add: json_without_schema_body_def extractRequestBody_def Let_def get_prop_def)

text \<open>
  Claim C6, amended. At most one media type is retained: \<open>application/json\<close> when it
  is declared with a schema; otherwise the first declared content type, when its name is
  not empty and it carries a schema; otherwise (also when no content type is declared)
  no request body descriptor is retained at all.
\<close>

theorem extractRequestBody_media_type:
  "(\<forall>content mediaType sch.
       rb_content body = Some content \<and> get_prop content ''application/json'' = Some mediaType
       \<and> mt_schema mediaType = Some sch \<longrightarrow>
       extractRequestBody body =
         Some \<lparr> body_required = (rb_required body = Some True),
                body_contentType = ''application/json'', body_schema = sch \<rparr>)
   \<and> (\<forall>contentType mediaType others sch.
       rb_content body = Some ((contentType, mediaType) # others)
       \<and> (\<forall>js. get_prop ((contentType, mediaType) # others) ''application/json'' = Some js
               \<longrightarrow> mt_schema js = None)
       \<and> contentType \<noteq> [] \<and> mt_schema mediaType = Some sch \<longrightarrow>
       extractRequestBody body =
         Some \<lparr> body_required = (rb_required body = Some True),
                body_contentType = contentType, body_schema = sch \<rparr>)
   \<and> (\<forall>contentType mediaType others.
       rb_content body = Some ((contentType, mediaType) # others)
       \<and> (\<forall>js. get_prop ((contentType, mediaType) # others) ''application/json'' = Some js
               \<longrightarrow> mt_schema js = None)
       \<and> (contentType = [] \<or> mt_schema mediaType = None) \<longrightarrow>
       extractRequestBody body = None)
   \<and> (rb_content body = None \<or> rb_content body = Some [] \<longrightarrow> extractRequestBody body = None)"
  by (auto simp: extractRequestBody_def Let_def get_prop_def split: option.splits list.splits)

theorem extractRequestBody_media_type_witness:
  "extractRequestBody json_body
     = Some \<lparr> body_required = True, body_contentType = ''application/json'',
              body_schema = [(''type'', JStr ''object'')] \<rparr>
   \<and> extractRequestBody xml_body
     = Some \<lparr> body_required = False, body_contentType = ''application/xml'',
              body_schema = [(''type'', JStr ''object'')] \<rparr>
   \<and> extractRequestBody schemaless_body = None"
  using extractRequestBody_media_type[of json_body] extractRequestBody_media_type[of xml_body]
    extractRequestBody_media_type[of schemaless_body]
  by (simp add: json_body_def xml_body_def schemaless_body_def get_prop_def)

section \<open>Properties of the tool mapper\<close>

lemma stored_methods:
  "map (\<lambda>m. toUpperCase cc (toLowerCase cc (toUpperCase cc m)) = toUpperCase cc m) methods
     = [True, True, True, True, True, True, True]"
  by (simp add: methods_def case_tables)

lemma extracted_method_roundtrip:
  assumes "e \<in> set (api_endpoints (extractFromSpec cc api))"
  shows "toUpperCase cc (toLowerCase cc (ep_method e)) = ep_method e"
proof -
  have "(ep_path e, ep_method e)
          \<in> set (map (\<lambda>e. (ep_path e, ep_method e)) (api_endpoints (extractFromSpec cc api)))"
    using assms by force
  then obtain m where "m \<in> set methods" "ep_method e = toUpperCase cc m"
    unfolding extractFromSpec_keys by (auto split: option.splits or_ref.splits)
  then show ?thesis using stored_methods[of cc] by (auto simp: methods_def)
qed

lemma tool_of_endpoint:
  "tool_key cc (mapEndpointToTool cc e)
     = toUpperCase cc (toLowerCase cc (ep_method e)) @ '':'' @ ep_path e"
  by (simp add: tool_key_def mapEndpointToTool_def Let_def)

lemma lowercase_endpoint_tools:
  "map (tool_key cc) (mapToMcpTools cc [bare_endpoint ''get'' ''/users''] (Some {''get:/users''}))
     = [''GET:/users'']
   \<and> ''GET:/users'' \<notin> {''get:/users''}"
  by (simp add: mapToMcpTools_def bare_endpoint_def tool_of_endpoint case_tables)

text \<open>
  Claim C3, as stated, fails for an endpoint list that does not store its methods in upper
  case: the mapper compares the stored method, a colon and the path with the enabled set,
  so the endpoint \<open>get /users\<close> passes the set \<open>{get:/users}\<close>, and the key of the returned
  tool, \<open>GET:/users\<close>, is not a member of that set (under every case conversion, by the
  lemma above).
\<close>

theorem mapToMcpTools_lowercase_key:
  "map (tool_key sample_conversion)
     (mapToMcpTools sample_conversion [bare_endpoint ''get'' ''/users''] (Some {''get:/users''}))
     = [''GET:/users'']
   \<and> ''GET:/users'' \<notin> {''get:/users''}"
  by (rule lowercase_endpoint_tools)

text \<open>
  Claim C3, amended. For every endpoint list and every enabled-key set, the mapper returns
  at most as many tools as there are endpoints, and every returned tool is the tool of an
  endpoint of the list whose key as stored (the stored method, a colon, the path template
  as declared, nothing normalized) is a member of the set. The key of the tool itself (its
  method in upper case, a colon, its path template) is a member of the set whenever
  lower-casing and then upper-casing gives back the stored method of every endpoint, and
  it is a member for every endpoint list that extraction returns.
\<close>

theorem mapToMcpTools_subset:
  "length (mapToMcpTools cc E (Some S)) \<le> length E
   \<and> (\<forall>t\<in>set (mapToMcpTools cc E (Some S)).
         \<exists>e\<in>set E. t = mapEndpointToTool cc e \<and> ep_method e @ '':'' @ ep_path e \<in> S)
   \<and> ((\<forall>e\<in>set E. toUpperCase cc (toLowerCase cc (ep_method e)) = ep_method e) \<longrightarrow>
        (\<forall>t\<in>set (mapToMcpTools cc E (Some S)). tool_key cc t \<in> S))
   \<and> (\<forall>t\<in>set (mapToMcpTools cc (api_endpoints (extractFromSpec cc api)) (Some S)).
         tool_key cc t \<in> S)"
proof -
  have len: "length (mapToMcpTools cc E (Some S)) \<le> length E"
    by (simp add: mapToMcpTools_def)
  have stored: "\<exists>e\<in>set E'. t = mapEndpointToTool cc e \<and> ep_method e @ '':'' @ ep_path e \<in> S"
    if "t \<in> set (mapToMcpTools cc E' (Some S))" for t E'
    using that by (auto simp: mapToMcpTools_def)
  have key: "tool_key cc t \<in> S"
    if rt: "\<forall>e\<in>set E'. toUpperCase cc (toLowerCase cc (ep_method e)) = ep_method e"
      and t: "t \<in> set (mapToMcpTools cc E' (Some S))" for t E'
  proof -
    obtain e where e: "e \<in> set E'" "t = mapEndpointToTool cc e" "ep_method e @ '':'' @ ep_path e \<in> S"
      using stored[OF t] by blast
    then show ?thesis using rt by (simp add: tool_of_endpoint)
  qed
  have extracted: "\<forall>e\<in>set (api_endpoints (extractFromSpec cc api)).
      toUpperCase cc (toLowerCase cc (ep_method e)) = ep_method e"
    using extracted_method_roundtrip by blast
  show ?thesis
    using len stored[of _ E] key[of E] key[OF extracted] by blast
qed

theorem mapToMcpTools_subset_witness:
  "list_all (\<lambda>e. toUpperCase sample_conversion (toLowerCase sample_conversion (ep_method e))
                   = ep_method e)
     [bare_endpoint ''GET'' ''/users'', bare_endpoint ''POST'' ''/users'']
   \<and> length (mapToMcpTools sample_conversion
               [bare_endpoint ''GET'' ''/users'', bare_endpoint ''POST'' ''/users'']
               (Some {''GET:/users''})) \<le> 2
   \<and> list_all (\<lambda>t. tool_key sample_conversion t \<in> {''GET:/users''})
       (mapToMcpTools sample_conversion
          [bare_endpoint ''GET'' ''/users'', bare_endpoint ''POST'' ''/users'']
          (Some {''GET:/users''}))
   \<and> list_all (\<lambda>t. tool_key sample_conversion t \<in> {''GET:/Orders'', ''DELETE:/Orders/{id}''})
       (mapToMcpTools sample_conversion (api_endpoints (extractFromSpec sample_conversion orders_doc))
          (Some {''GET:/Orders'', ''DELETE:/Orders/{id}''}))"
proof -
  have up: "\<forall>e\<in>set [bare_endpoint ''GET'' ''/users'', bare_endpoint ''POST'' ''/users''].
              toUpperCase sample_conversion (toLowerCase sample_conversion (ep_method e)) = ep_method e"
    by (simp add: bare_endpoint_def case_tables)
  show ?thesis
    using up
      mapToMcpTools_subset[of sample_conversion
        "[bare_endpoint ''GET'' ''/users'', bare_endpoint ''POST'' ''/users'']"
        "{''GET:/users''}" orders_doc]
      mapToMcpTools_subset[of sample_conversion "[]" "{''GET:/Orders'', ''DELETE:/Orders/{id}''}"
        orders_doc]
    by (simp add: list_all_iff)
qed

lemma filter_all_keys:
  "filter (\<lambda>endpoint. ep_method endpoint @ '':'' @ ep_path endpoint \<in> set (getAllEndpointKeys E)) E = E"
  by (rule filter_True) (auto simp: getAllEndpointKeys_def getEndpointKey_def)

text \<open>
  Claim C8. Filtering an endpoint list by the set of all its own keys, as
  \<open>getAllEndpointKeys\<close> returns them, keeps every endpoint: the result is the list of
  the tools of the endpoints in order (the i-th tool is the tool of the i-th endpoint), the
  same list that mapping without a filter returns, and as long as the endpoint list.
\<close>

theorem mapToMcpTools_all_keys:
  "mapToMcpTools cc E (Some (set (getAllEndpointKeys E))) = map (mapEndpointToTool cc) E
   \<and> mapToMcpTools cc E (Some (set (getAllEndpointKeys E))) = mapToMcpTools cc E None
   \<and> length (mapToMcpTools cc E (Some (set (getAllEndpointKeys E)))) = length E"
  using filter_all_keys[of E] by (simp add: mapToMcpTools_def)

subsection \<open>The input schema\<close>

lemma add_parameters_required:
  "snd (add_parameters ps (properties, required)) =
     required @ map param_name (filter param_required ps)"
  by (induction ps arbitrary: properties required) simp_all

lemma add_parameters_own:
  "n \<noteq> ''__proto__'' \<Longrightarrow>
     get_prop (fst (fst (add_parameters ps (properties, required)))) n =
       (case filter (\<lambda>p. param_name p = n) ps of
          [] \<Rightarrow> get_prop (fst properties) n
        | q # qs \<Rightarrow> Some (parameter_property (last (q # qs))))"
  by (induction ps arbitrary: properties required) (auto simp: get_prop_assign split: list.splits)

lemma add_parameters_last:
  assumes "n \<noteq> ''__proto__''" and "filter (\<lambda>p. param_name p = n) ps = xs @ [q]"
  shows "get_prop (fst (fst (add_parameters ps (properties, required)))) n
           = Some (parameter_property q)"
  using assms by (cases xs) (simp_all add: add_parameters_own)

lemma buildInputSchema_eq:
  "buildInputSchema e =
     (let names = map param_name (filter param_required (ep_parameters e))
                  @ (case ep_requestBody e of
                       None \<Rightarrow> []
                     | Some b \<Rightarrow> if body_required b then [''requestBody''] else []);
          props = fst (fst (add_requestBody (ep_requestBody e)
                              (add_parameters (ep_parameters e) (([], ObjectPrototype), []))))
      in if names = [] then [(''type'', JStr ''object''), (''properties'', JObj props)]
         else [(''type'', JStr ''object''), (''properties'', JObj props),
               (''required'', JArr (map JStr names))])"
proof -
  obtain properties required
    where st: "add_parameters (ep_parameters e) (([], ObjectPrototype), []) = (properties, required)"
    by (cases "add_parameters (ep_parameters e) (([], ObjectPrototype), [])") auto
  have req: "required = map param_name (filter param_required (ep_parameters e))"
    using add_parameters_required[of "ep_parameters e" "([], ObjectPrototype)" "[]"] st by simp
  show ?thesis
    by (simp add: buildInputSchema_def add_requestBody_def st req Let_def set_prop_new_key no_index
        split: option.splits)
qed

text \<open>
  Claim C4. Let the required names of an endpoint be the names of its required parameters
  in declaration order, followed by \<open>requestBody\<close> when it has a required body. When there
  is none, the input schema has no \<open>required\<close> key at all; otherwise its \<open>required\<close>
  entry is the array of exactly these names in this order.
\<close>

theorem buildInputSchema_required:
  "(let names = map param_name (filter param_required (ep_parameters e))
                @ (case ep_requestBody e of
                     None \<Rightarrow> []
                   | Some body \<Rightarrow> if body_required body then [''requestBody''] else [])
    in if names = []
       then ''required'' \<notin> fst ` set (buildInputSchema e)
       else get_prop (buildInputSchema e) ''required'' = Some (JArr (map JStr names)))"
  by (simp add: buildInputSchema_eq Let_def get_prop_def split: option.splits)

theorem buildInputSchema_required_witness:
  "''required'' \<notin> fst ` set (buildInputSchema
       ((bare_endpoint ''GET'' ''/users'')\<lparr> ep_parameters := [string_parameter ''limit'' False] \<rparr>))
   \<and> get_prop (buildInputSchema
       ((bare_endpoint ''POST'' ''/users'')
          \<lparr> ep_parameters := [string_parameter ''b'' True, string_parameter ''skip'' False,
                               string_parameter ''a'' True],
            ep_requestBody := Some (object_body True) \<rparr>)) ''required''
     = Some (JArr [JStr ''b'', JStr ''a'', JStr ''requestBody''])"
  using buildInputSchema_required[of
      "(bare_endpoint ''GET'' ''/users'')\<lparr> ep_parameters := [string_parameter ''limit'' False] \<rparr>"]
    buildInputSchema_required[of
      "(bare_endpoint ''POST'' ''/users'')
          \<lparr> ep_parameters := [string_parameter ''b'' True, string_parameter ''skip'' False,
                               string_parameter ''a'' True],
            ep_requestBody := Some (object_body True) \<rparr>"]
  by (simp add: bare_endpoint_def string_parameter_def object_body_def)

lemma schema_properties_buildInputSchema:
  "schema_properties (buildInputSchema e) =
     fst (fst (add_requestBody (ep_requestBody e)
                 (add_parameters (ep_parameters e) (([], ObjectPrototype), []))))"
  by (simp add: buildInputSchema_eq Let_def schema_properties_def get_prop_def)

lemma schema_required_buildInputSchema:
  "schema_required (buildInputSchema e) =
     map JStr (map param_name (filter param_required (ep_parameters e))
               @ (case ep_requestBody e of
                    None \<Rightarrow> []
                  | Some body \<Rightarrow> if body_required body then [''requestBody''] else []))"
  by (simp add: buildInputSchema_eq Let_def schema_required_def get_prop_def)

lemma properties_entry:
  assumes "n \<noteq> ''__proto__''"
  shows "get_prop (schema_properties (buildInputSchema e)) n =
     (case ep_requestBody e of
        Some body \<Rightarrow>
          if n = ''requestBody''
          then Some (JObj (spread_with (body_schema body) ''description'' (JStr ''The JSON request body.'')))
          else get_prop (fst (fst (add_parameters (ep_parameters e) (([], ObjectPrototype), [])))) n
      | None \<Rightarrow> get_prop (fst (fst (add_parameters (ep_parameters e) (([], ObjectPrototype), [])))) n)"
  using assms
  by (simp add: schema_properties_buildInputSchema add_requestBody_def get_prop_assign
      split: option.splits)

lemma count_list_JStr: "count_list (map JStr xs) (JStr n) = count_list xs n"
  by (induction xs) simp_all

lemma count_required_names:
  "count_list (map param_name (filter param_required ps)) n =
     length (filter (\<lambda>p. param_name p = n \<and> param_required p) ps)"
  by (induction ps) simp_all

lemma ep_parameters_extractEndpoint:
  "ep_parameters (extractEndpoint cc path method operation pathParameters) =
     map extractParameter
       (concat (map (\<lambda>x. case x of Obj p \<Rightarrow> [p] | Reference r \<Rightarrow> [])
                  ((case pathParameters of None \<Rightarrow> [] | Some ps \<Rightarrow> ps)
                   @ (case op_parameters operation of None \<Rightarrow> [] | Some ps \<Rightarrow> ps))))"
  by (simp add: extractEndpoint_def Let_def push_parameters_eq)

lemma extractParameter_fields [simp]:
  "param_name (extractParameter p) = po_name p"
  "param_required (extractParameter p) = (po_required p = Some True)"
  by (auto simp: extractParameter_def split: option.splits)

lemma objs_mem:
  "Obj p \<in> set xs \<Longrightarrow>
     p \<in> set (concat (map (\<lambda>x. case x of Obj p \<Rightarrow> [p] | Reference r \<Rightarrow> []) xs))"
  by (induction xs) (auto split: or_ref.splits)

lemma requestBody_operation_entry:
  "get_prop (schema_properties (buildInputSchema
       (extractEndpoint cc ''/items'' ''POST'' requestBody_operation
          (Some [Obj (bare_parameter ''requestBody'')])))) ''requestBody''
     = Some (JObj [(''type'', JStr ''object''), (''description'', JStr ''The JSON request body.'')])
   \<and> parameter_property (extractParameter (integer_parameter ''requestBody'' True))
     = JObj [(''type'', JStr ''integer''), (''description'', JUndefined)]"
  by (simp add: properties_entry requestBody_operation_def bare_operation_def
      extractEndpoint_def json_body_def extractRequestBody_def get_prop_list Let_def
      parameter_property_def extractParameter_def integer_parameter_def
      spread_with_def truthy_def set_prop_new_key no_index)

text \<open>
  Claim C9, as stated, fails when the shared name is \<open>requestBody\<close> and the operation has
  a request body: the entry under that name is then the body schema with the fixed
  description, not the schema of the operation-level parameter (under every case
  conversion, by the lemma above).
\<close>

theorem duplicate_requestBody_parameter_overwritten:
  "get_prop (schema_properties (buildInputSchema
       (extractEndpoint sample_conversion ''/items'' ''POST'' requestBody_operation
          (Some [Obj (bare_parameter ''requestBody'')])))) ''requestBody''
     = Some (JObj [(''type'', JStr ''object''), (''description'', JStr ''The JSON request body.'')])
   \<and> parameter_property (extractParameter (integer_parameter ''requestBody'' True))
     = JObj [(''type'', JStr ''integer''), (''description'', JUndefined)]"
  by (rule requestBody_operation_entry)

text \<open>
  Claim C9, amended. Take an endpoint extracted from a path item and an operation that
  both declare a (non-reference) parameter named \<open>n\<close>, let \<open>q\<close> be the last operation-level
  parameter of that name, and suppose that \<open>n\<close> is not \<^verbatim>\<open>__proto__\<close>, and that \<open>n\<close> is
  not \<open>requestBody\<close> or no request body was extracted. Then the entry of the input
  schema's properties under \<open>n\<close> is the one built from \<open>q\<close> (its schema with the
  description set), the name occurs in the \<open>required\<close> array once for every required copy
  in the merged parameter list, and so at least twice when the path-level copy and \<open>q\<close>
  are both required.
\<close>

theorem duplicate_parameter_last_write_wins:
  assumes "Obj p \<in> set pathParameters" and "po_name p = n"
    and "op_parameters operation = Some (earlier @ Obj q # later)" and "po_name q = n"
    and "\<forall>x\<in>set later. \<forall>r. x = Obj r \<longrightarrow> po_name r \<noteq> n"
    and "n = ''requestBody'' \<longrightarrow>
           ep_requestBody (extractEndpoint cc path method operation (Some pathParameters)) = None"
    and "n \<noteq> ''__proto__''"
  shows "get_prop (schema_properties
             (buildInputSchema (extractEndpoint cc path method operation (Some pathParameters)))) n
           = Some (parameter_property (extractParameter q))
         \<and> count_list (schema_required
               (buildInputSchema (extractEndpoint cc path method operation (Some pathParameters))))
             (JStr n)
           = length (filter (\<lambda>x. param_name x = n \<and> param_required x)
               (ep_parameters (extractEndpoint cc path method operation (Some pathParameters))))
         \<and> (po_required p = Some True \<and> po_required q = Some True \<longrightarrow>
               2 \<le> count_list (schema_required
                   (buildInputSchema (extractEndpoint cc path method operation (Some pathParameters))))
                   (JStr n))"
proof -
  define e where "e = extractEndpoint cc path method operation (Some pathParameters)"
  define objs :: "ParameterObject or_ref list \<Rightarrow> ParameterObject list"
    where "objs = (\<lambda>xs. concat (map (\<lambda>x. case x of Obj p \<Rightarrow> [p] | Reference r \<Rightarrow> []) xs))"
  define before where "before = map extractParameter (objs pathParameters @ objs earlier)"
  define after where "after = map extractParameter (objs later)"
  have params: "ep_parameters e = before @ extractParameter q # after"
    using assms(3) by (simp add: e_def ep_parameters_extractEndpoint objs_def before_def after_def)
  have after_other: "filter (\<lambda>x. param_name x = n) after = []"
    using assms(5) by (auto simp: after_def objs_def filter_empty_conv split: or_ref.splits)
  have p_before: "extractParameter p \<in> set before"
    using objs_mem[OF assms(1)] by (simp add: before_def objs_def)
  have named: "filter (\<lambda>x. param_name x = n) (ep_parameters e)
                 = filter (\<lambda>x. param_name x = n) before @ [extractParameter q]"
    using assms(4) after_other by (simp add: params)
  have body: "n = ''requestBody'' \<longrightarrow> ep_requestBody e = None"
    using assms(6) by (simp add: e_def)
  have entry: "get_prop (schema_properties (buildInputSchema e)) n
                 = Some (parameter_property (extractParameter q))"
    using body add_parameters_last[OF assms(7) named, of "([], ObjectPrototype)" "[]"]
    by (auto simp: properties_entry[OF assms(7)] split: option.splits)
  have "schema_required (buildInputSchema e)
          = map JStr (map param_name (filter param_required (ep_parameters e))
               @ (case ep_requestBody e of
                    None \<Rightarrow> []
                  | Some body \<Rightarrow> if body_required body then [''requestBody''] else []))"
    by (rule schema_required_buildInputSchema)
  then have "count_list (schema_required (buildInputSchema e)) (JStr n)
          = count_list (map param_name (filter param_required (ep_parameters e))
               @ (case ep_requestBody e of
                    None \<Rightarrow> []
                  | Some body \<Rightarrow> if body_required body then [''requestBody''] else [])) n"
    by (simp only: count_list_JStr)
  also have "\<dots> = length (filter (\<lambda>x. param_name x = n \<and> param_required x) (ep_parameters e))"
    using body by (auto simp: count_required_names split: option.splits)
  finally have count: "count_list (schema_required (buildInputSchema e)) (JStr n)
          = length (filter (\<lambda>x. param_name x = n \<and> param_required x) (ep_parameters e))" .
  have twice: "2 \<le> length (filter (\<lambda>x. param_name x = n \<and> param_required x) (ep_parameters e))"
    if req: "po_required p = Some True" "po_required q = Some True"
  proof -
    have "extractParameter p \<in> set (filter (\<lambda>x. param_name x = n \<and> param_required x) before)"
      using p_before assms(2) req by simp
    then have "0 < length (filter (\<lambda>x. param_name x = n \<and> param_required x) before)"
      by (rule length_pos_if_in_set)
    moreover have "length (filter (\<lambda>x. param_name x = n \<and> param_required x) (ep_parameters e))
        = length (filter (\<lambda>x. param_name x = n \<and> param_required x) before) + 1
          + length (filter (\<lambda>x. param_name x = n \<and> param_required x) after)"
      using assms(4) req by (simp add: params)
    ultimately show ?thesis by linarith
  qed
  show ?thesis
    using entry count twice unfolding e_def by simp
qed

theorem duplicate_parameter_last_write_wins_witness:
  "get_prop (schema_properties (buildInputSchema
       (extractEndpoint sample_conversion ''/users/{id}'' ''GET'' duplicate_id_operation
          (Some [Obj ((bare_parameter ''id'')\<lparr> po_required := Some True \<rparr>)])))) ''id''
     = Some (JObj [(''type'', JStr ''integer''), (''description'', JUndefined)])
   \<and> parameter_property (extractParameter ((bare_parameter ''id'')\<lparr> po_required := Some True \<rparr>))
     = JObj [(''type'', JStr ''string''), (''description'', JUndefined)]
   \<and> count_list (schema_required (buildInputSchema
       (extractEndpoint sample_conversion ''/users/{id}'' ''GET'' duplicate_id_operation
          (Some [Obj ((bare_parameter ''id'')\<lparr> po_required := Some True \<rparr>)])))) (JStr ''id'') = 2"
proof -
  have h1: "Obj ((bare_parameter ''id'')\<lparr> po_required := Some True \<rparr>)
              \<in> set [Obj ((bare_parameter ''id'')\<lparr> po_required := Some True \<rparr>)]"
    by simp
  have h2: "po_name ((bare_parameter ''id'')\<lparr> po_required := Some True \<rparr>) = ''id''"
    by (simp add: bare_parameter_def)
  have h3: "op_parameters duplicate_id_operation
              = Some ([] @ Obj (integer_parameter ''id'' True) # [Obj (bare_parameter ''limit'')])"
    by (simp add: duplicate_id_operation_def bare_operation_def)
  have h4: "po_name (integer_parameter ''id'' True) = ''id''"
    by (simp add: integer_parameter_def)
  have h5: "\<forall>x\<in>set [Obj (bare_parameter ''limit'')]. \<forall>r. x = Obj r \<longrightarrow> po_name r \<noteq> ''id''"
    by (simp add: bare_parameter_def)
  have h6: "''id'' = ''requestBody'' \<longrightarrow>
      ep_requestBody (extractEndpoint sample_conversion ''/users/{id}'' ''GET'' duplicate_id_operation
        (Some [Obj ((bare_parameter ''id'')\<lparr> po_required := Some True \<rparr>)])) = None"
    by simp
  have h7: "''id'' \<noteq> ''__proto__''"
    by simp
  show ?thesis
    using duplicate_parameter_last_write_wins[OF h1 h2 h3 h4 h5 h6 h7]
    by (simp add: ep_parameters_extractEndpoint duplicate_id_operation_def bare_operation_def
        parameter_property_def extractParameter_def integer_parameter_def bare_parameter_def
        spread_with_def truthy_def get_prop_list set_prop_new_key no_index)
qed

text \<open>
  Claim C10. For every endpoint that has a parameter named \<open>requestBody\<close> and a request
  body, the \<open>requestBody\<close> entry of the tool's input-schema properties is the body schema
  with its description set to \<open>The JSON request body.\<close> (every other key of the body
  schema is kept), which replaces the entry written for the parameter; and when that
  parameter and the body are both required, \<open>requestBody\<close> occurs at least twice in the
  \<open>required\<close> array.
\<close>

theorem requestBody_parameter_overwritten:
  assumes "p \<in> set (ep_parameters e)" and "param_name p = ''requestBody''"
    and "ep_requestBody e = Some body"
  shows "get_prop (schema_properties (tool_inputSchema (mapEndpointToTool cc e))) ''requestBody''
           = Some (JObj (spread_with (body_schema body) ''description'' (JStr ''The JSON request body.'')))
         \<and> get_prop (spread_with (body_schema body) ''description'' (JStr ''The JSON request body.''))
              ''description'' = Some (JStr ''The JSON request body.'')
         \<and> (\<forall>k. k \<noteq> ''description'' \<longrightarrow>
               get_prop (spread_with (body_schema body) ''description'' (JStr ''The JSON request body.'')) k
                 = get_prop (body_schema body) k)
         \<and> (param_required p \<and> body_required body \<longrightarrow>
               2 \<le> count_list (schema_required (tool_inputSchema (mapEndpointToTool cc e)))
                      (JStr ''requestBody''))"
proof -
  have tool: "tool_inputSchema (mapEndpointToTool cc e) = buildInputSchema e"
    by (simp add: mapEndpointToTool_def Let_def)
  have entry: "get_prop (schema_properties (buildInputSchema e)) ''requestBody''
           = Some (JObj (spread_with (body_schema body) ''description'' (JStr ''The JSON request body.'')))"
    using assms(3) by (simp add: properties_entry)
  have count: "2 \<le> count_list (schema_required (buildInputSchema e)) (JStr ''requestBody'')"
    if req: "param_required p" "body_required body"
  proof -
    have "p \<in> set (filter (\<lambda>p. param_name p = ''requestBody'' \<and> param_required p) (ep_parameters e))"
      using assms(1,2) req by simp
    then have "0 < length (filter (\<lambda>p. param_name p = ''requestBody'' \<and> param_required p)
                             (ep_parameters e))"
      by (rule length_pos_if_in_set)
    then have pos: "1 \<le> length (filter (\<lambda>p. param_name p = ''requestBody'' \<and> param_required p)
                                  (ep_parameters e))"
      by linarith
    have "schema_required (buildInputSchema e)
            = map JStr (map param_name (filter param_required (ep_parameters e)) @ [''requestBody''])"
      using assms(3) req by (simp add: schema_required_buildInputSchema)
    then have "count_list (schema_required (buildInputSchema e)) (JStr ''requestBody'')
            = count_list (map param_name (filter param_required (ep_parameters e)) @ [''requestBody''])
                ''requestBody''"
      by (simp only: count_list_JStr)
    also have "\<dots> = length (filter (\<lambda>p. param_name p = ''requestBody'' \<and> param_required p)
                               (ep_parameters e)) + 1"
      by (simp add: count_required_names)
    finally show ?thesis using pos by simp
  qed
  show ?thesis
    using entry count by (simp add: tool spread_with_def get_prop_set_prop)
qed

theorem requestBody_parameter_overwritten_witness:
  "get_prop (schema_properties (tool_inputSchema (mapEndpointToTool sample_conversion requestBody_endpoint)))
       ''requestBody''
     = Some (JObj [(''type'', JStr ''object''), (''description'', JStr ''The JSON request body.'')])
   \<and> schema_required (tool_inputSchema (mapEndpointToTool sample_conversion requestBody_endpoint))
     = [JStr ''requestBody'', JStr ''requestBody'']"
proof -
  have h1: "string_parameter ''requestBody'' True \<in> set (ep_parameters requestBody_endpoint)"
    by (simp add: requestBody_endpoint_def bare_endpoint_def)
  have h2: "param_name (string_parameter ''requestBody'' True) = ''requestBody''"
    by (simp add: string_parameter_def)
  have h3: "ep_requestBody requestBody_endpoint = Some (object_body True)"
    by (simp add: requestBody_endpoint_def bare_endpoint_def)
  have req: "schema_required (tool_inputSchema (mapEndpointToTool sample_conversion requestBody_endpoint))
               = [JStr ''requestBody'', JStr ''requestBody'']"
    by (simp add: mapEndpointToTool_def Let_def schema_required_buildInputSchema
        requestBody_endpoint_def bare_endpoint_def string_parameter_def object_body_def)
  show ?thesis
    using requestBody_parameter_overwritten[OF h1 h2 h3, of sample_conversion] req
    by (simp add: object_body_def spread_with_def set_prop_def)
qed

section \<open>Properties of the code emitter\<close>

text \<open>
  Claim C7. For every tool list, every option record (telemetry on or off, OAuth configured
  or not) and every security-scheme table, whatever the renderers return, the bundle has
  exactly the six keys package.json, tsconfig.json, src/index.ts, src/transport.ts,
  .env.example and README.md, in this order.
\<close>

theorem generateMcpServer_files:
  "map fst (generateMcpServer r tools opts securitySchemes) =
     [''package.json'', ''tsconfig.json'', ''src/index.ts'', ''src/transport.ts'',
      ''.env.example'', ''README.md'']
   \<and> fst ` set (generateMcpServer r tools opts securitySchemes) =
     {''package.json'', ''tsconfig.json'', ''src/index.ts'', ''src/transport.ts'',
      ''.env.example'', ''README.md''}"
  by (simp add: generateMcpServer_def Let_def set_prop_new_key no_index)

end
